theory Spec2Isabelle
  imports Complex_Main "HOL-Library.Sublist"
begin

section \<open>The ISS tracker: a shallow embedding of iss\_tracker.py\<close>

text \<open>
  The program keeps the state vectors of an ephemeris feed in a cache and answers HTTP
  requests about them. Everything outside the source file is a parameter of the model:
  the feed document, the wall clock, the reverse geocoder and the arithmetic of Python's
  floats are fields of an environment; the cache is an explicit store that every
  operation takes and returns. Exceptions are values: an operation returns a pair of an
  outcome (\<open>Inl\<close> the exception raised, \<open>Inr\<close> the value returned) and the store as it
  is left, so that what a failing call has already written stays visible.

  The cache client is the one the source builds,
  \<open>redis.Redis(host='redis-db', port=6379, db=0)\<close>: without \<open>decode_responses\<close> it
  hands every reply back as bytes. The model keeps a Python str and a bytes object apart.
\<close>

subsection \<open>Exceptions\<close>

datatype error =
    RequestException      \<comment> \<open>\<open>requests.get\<close> failed\<close>
  | ParseError            \<comment> \<open>\<open>ET.fromstring\<close>: the document is not well-formed\<close>
  | TypeError             \<comment> \<open>\<open>float(None)\<close>, \<open>None['speed']\<close>, \<open>strptime\<close> on bytes\<close>
  | ValueError            \<comment> \<open>\<open>float\<close>, \<open>int\<close>, \<open>strptime\<close> on unsuitable text; a math domain error\<close>
  | KeyError              \<comment> \<open>a dictionary has no such key\<close>
  | DataError             \<comment> \<open>the cache client refuses a \<open>None\<close> value\<close>
  | ZeroDivisionError
  | OverflowError
  | IndexError
  | GeocoderError         \<comment> \<open>any exception of \<open>geolocator.reverse\<close>\<close>

subsection \<open>Text: str and bytes, \<open>int(s)\<close>\<close>

text \<open>
  A Python str is a list of characters, a character being a code point below 256; a bytes
  object is a list of bytes. A str and a bytes object are never equal, whatever they hold.
\<close>

datatype py_text = Str string | Bytes string

definition is_str :: "py_text \<Rightarrow> bool" where
  "is_str t = (case t of Str s \<Rightarrow> True | Bytes b \<Rightarrow> False)"

text \<open>
  \<open>repr\<close> of a bytes object: the quote is the double one when the bytes hold a single
  quote and no double quote; the quote and the backslash are escaped, tab, newline and
  carriage return are written \<open>\t\<close>, \<open>\n\<close>, \<open>\r\<close>, and any other byte outside the
  printable ASCII range as \<open>\xhh\<close>.
\<close>

definition hex_char :: "nat \<Rightarrow> char" where
  "hex_char n = ''0123456789abcdef'' ! n"

definition escape_byte :: "char \<Rightarrow> char \<Rightarrow> string" where
  "escape_byte q c =
     (let n = (of_char c :: nat) in
      if c = q \<or> c = CHR 0x5C then [CHR 0x5C, c]
      else if n = 9 then [CHR 0x5C, CHR ''t'']
      else if n = 10 then [CHR 0x5C, CHR ''n'']
      else if n = 13 then [CHR 0x5C, CHR ''r'']
      else if n < 32 \<or> 127 \<le> n then [CHR 0x5C, CHR ''x'', hex_char (n div 16), hex_char (n mod 16)]
      else [c])"

definition bytes_repr :: "string \<Rightarrow> string" where
  "bytes_repr b =
     (let q = (if CHR 0x27 \<in> set b \<and> CHR 0x22 \<notin> set b then CHR 0x22 else CHR 0x27)
      in CHR ''b'' # q # concat (map (escape_byte q) b) @ [q])"

text \<open>What an f-string makes of a value: a str as it is, a bytes object as its \<open>repr\<close>.\<close>

definition format_text :: "py_text \<Rightarrow> string" where
  "format_text t = (case t of Str s \<Rightarrow> s | Bytes b \<Rightarrow> bytes_repr b)"

definition is_digit :: "char \<Rightarrow> bool" where
  "is_digit c = (48 \<le> (of_char c :: nat) \<and> (of_char c :: nat) \<le> 57)"

definition digit_val :: "char \<Rightarrow> nat" where
  "digit_val c = (of_char c :: nat) - 48"

text \<open>
  The characters that \<open>int\<close> and \<open>float\<close> strip from the ends of a str: tab to carriage
  return, the space, and the two spaces beyond ASCII, U+0085 and U+00A0.
\<close>

definition is_space :: "char \<Rightarrow> bool" where
  "is_space c =
     (let n = (of_char c :: nat) in (9 \<le> n \<and> n \<le> 13) \<or> n = 32 \<or> n = 133 \<or> n = 160)"

definition strip :: "string \<Rightarrow> string" where
  "strip s = rev (dropWhile is_space (rev (dropWhile is_space s)))"

text \<open>
  A run of decimal digits as Python's numeric literals in text allow it: a single
  underscore may stand between two digits. The flag says that the previous character was
  a digit; the empty run is refused.
\<close>

fun py_digits :: "bool \<Rightarrow> nat \<Rightarrow> string \<Rightarrow> nat option" where
  "py_digits prev acc [] = (if prev then Some acc else None)"
| "py_digits prev acc (c # cs) =
     (if is_digit c then py_digits True (10 * acc + digit_val c) cs
      else if c = CHR ''_'' \<and> prev \<and> cs \<noteq> [] \<and> is_digit (hd cs) then py_digits False acc cs
      else None)"

text \<open>
  \<open>int(s)\<close> on a str, base 10; \<open>None\<close> stands for the ValueError. The text is
  stripped, an optional sign follows, then the digits. A text of more than 4300 digits is
  refused, the limit of the interpreter as it is shipped. Among the code points below 256
  the decimal digits are \<open>0\<close> to \<open>9\<close> and the spaces are the eight above; the
  separators U+001C to U+001F are not stripped.
\<close>

definition py_int :: "string \<Rightarrow> int option" where
  "py_int s =
     (case strip s of
        [] \<Rightarrow> None
      | c # cs \<Rightarrow>
          (let body = (if c = CHR ''-'' \<or> c = CHR ''+'' then cs else c # cs) in
           if 4300 < length (filter is_digit body) then None
           else if c = CHR ''-'' then map_option (\<lambda>n. - int n) (py_digits False 0 body)
           else map_option int (py_digits False 0 body)))"

subsection \<open>Timestamps: \<open>datetime.strptime(epoch, "%Y-%jT%H:%M:%S.%fZ")\<close>\<close>

text \<open>
  A \<open>datetime\<close> is the number of microseconds since 0001-01-01T00:00:00; differences and
  comparisons of datetimes are exact integer arithmetic in Python, and so here.
  The format's fields are runs of digits between literal separators, so the regular
  expression of \<open>strptime\<close> matches in one way only. It is compiled with IGNORECASE: the
  letters T and Z match in either case.
\<close>

fun digits_nat :: "nat \<Rightarrow> string \<Rightarrow> nat" where
  "digits_nat acc [] = acc"
| "digits_nat acc (c # cs) = digits_nat (10 * acc + digit_val c) cs"

text \<open>A field of \<open>lo\<close> to \<open>hi\<close> digits, all of them digits.\<close>

definition field :: "nat \<Rightarrow> nat \<Rightarrow> string \<Rightarrow> nat option" where
  "field lo hi s =
     (if lo \<le> length s \<and> length s \<le> hi \<and> list_all is_digit s then Some (digits_nat 0 s) else None)"

text \<open>The text before the first character that satisfies \<open>p\<close>, and the text after it.\<close>

definition split_at :: "(char \<Rightarrow> bool) \<Rightarrow> string \<Rightarrow> (string \<times> string) option" where
  "split_at p s =
     (case dropWhile (\<lambda>c. \<not> p c) s of
        [] \<Rightarrow> None
      | _ # rest \<Rightarrow> Some (takeWhile (\<lambda>c. \<not> p c) s, rest))"

text \<open>Days before January 1st of year \<open>y\<close> in the proleptic Gregorian calendar.\<close>

definition days_before_year :: "nat \<Rightarrow> nat" where
  "days_before_year y = 365 * (y - 1) + (y - 1) div 4 - (y - 1) div 100 + (y - 1) div 400"

definition strptime :: "string \<Rightarrow> int option" where
  "strptime s =
     Option.bind (split_at (\<lambda>c. c = CHR ''-'') s) (\<lambda>(ys, s1).
     Option.bind (split_at (\<lambda>c. c = CHR ''T'' \<or> c = CHR ''t'') s1) (\<lambda>(js, s2).
     Option.bind (split_at (\<lambda>c. c = CHR '':'') s2) (\<lambda>(hs, s3).
     Option.bind (split_at (\<lambda>c. c = CHR '':'') s3) (\<lambda>(ms, s4).
     Option.bind (split_at (\<lambda>c. c = CHR ''.'') s4) (\<lambda>(ss, s5).
     Option.bind (split_at (\<lambda>c. c = CHR ''Z'' \<or> c = CHR ''z'') s5) (\<lambda>(fs, s6).
     Option.bind (field 4 4 ys) (\<lambda>y.
     Option.bind (field 1 3 js) (\<lambda>j.
     Option.bind (field 1 2 hs) (\<lambda>h.
     Option.bind (field 1 2 ms) (\<lambda>m.
     Option.bind (field 1 2 ss) (\<lambda>sec.
     Option.bind (field 1 6 fs) (\<lambda>f.
       if s6 = [] \<and> 1 \<le> y \<and> 1 \<le> j \<and> j \<le> 366 \<and> \<not> (y = 9999 \<and> j = 366)
          \<and> h \<le> 23 \<and> m \<le> 59 \<and> sec \<le> 59
       then Some (int ((((days_before_year y + (j - 1)) * 24 + h) * 60 + m) * 60 + sec)
                    * 1000000 + int (f * 10 ^ (6 - length fs)))
       else None))))))))))))"

subsection \<open>Python floats\<close>

text \<open>
  The program computes with IEEE-754 doubles through the Python runtime and the C
  mathematics library. Their arithmetic is a parameter: a record of the operations the
  source uses, over a type \<open>'f\<close> of float values. An operation that can raise returns
  an option, \<open>None\<close> standing for the exception named beside it. What is proved for
  every such record holds for the doubles as well.
\<close>

record 'f arith =
  f_of_text :: "string \<Rightarrow> 'f option"      \<comment> \<open>\<open>float(s)\<close> on a text; ValueError\<close>
  f_repr :: "'f \<Rightarrow> string"                 \<comment> \<open>\<open>repr(x)\<close>, the text the cache client sends for a float\<close>
  f_pow2 :: "'f \<Rightarrow> 'f option"              \<comment> \<open>\<open>x ** 2\<close>; OverflowError\<close>
  f_add :: "'f \<Rightarrow> 'f \<Rightarrow> 'f"                   \<comment> \<open>\<open>a + b\<close>\<close>
  f_sub :: "'f \<Rightarrow> 'f \<Rightarrow> 'f"                   \<comment> \<open>\<open>a - b\<close>\<close>
  f_div :: "'f \<Rightarrow> 'f \<Rightarrow> 'f option"            \<comment> \<open>\<open>a / b\<close>; ZeroDivisionError\<close>
  f_sqrt :: "'f \<Rightarrow> 'f option"              \<comment> \<open>\<open>math.sqrt\<close>; ValueError\<close>
  f_atan2 :: "'f \<Rightarrow> 'f \<Rightarrow> 'f"                 \<comment> \<open>\<open>math.atan2\<close>\<close>
  f_asin :: "'f \<Rightarrow> 'f option"              \<comment> \<open>\<open>math.asin\<close>; ValueError\<close>
  f_degrees :: "'f \<Rightarrow> 'f"                  \<comment> \<open>\<open>math.degrees\<close>\<close>
  f_earth_radius :: "'f"                   \<comment> \<open>the literal \<open>6371.0\<close>\<close>

definition raise_if_none :: "error \<Rightarrow> 'a option \<Rightarrow> error + 'a" where
  "raise_if_none e v = (case v of None \<Rightarrow> Inl e | Some a \<Rightarrow> Inr a)"

text \<open>Sequencing of computations that may raise: the first exception ends the sequence.\<close>

definition and_then :: "error + 'a \<Rightarrow> ('a \<Rightarrow> error + 'b) \<Rightarrow> error + 'b" where
  "and_then m k = (case m of Inl e \<Rightarrow> Inl e | Inr a \<Rightarrow> k a)"

text \<open>
  \<open>float(t)\<close> where \<open>t\<close> is the result of \<open>findtext\<close>: \<open>None\<close> for a missing child
  element (TypeError), otherwise the element's text.
\<close>

definition py_float :: "'f arith \<Rightarrow> string option \<Rightarrow> error + 'f" where
  "py_float ar t =
     (case t of None \<Rightarrow> Inl TypeError | Some s \<Rightarrow> raise_if_none ValueError (f_of_text ar s))"

subsubsection \<open>Exact arithmetic\<close>

text \<open>
  The interpretation of floats as real numbers: every operation is exact, nothing
  overflows, and there are no infinities and no NaN. It is the arithmetic in which the
  formulas of the source are read as mathematics, and the one on which the model is run
  on concrete inputs. \<open>decimal\<close> reads the decimal literals that \<open>float\<close> accepts
  (sign, digits, fraction, exponent, surrounding whitespace). The texts \<open>nan\<close>,
  \<open>inf\<close> and \<open>infinity\<close>, which \<open>float\<close> accepts as well, name no real number and
  are refused; no feed below holds one.
\<close>

definition mantissa :: "string \<Rightarrow> real option" where
  "mantissa m =
     (let ip = takeWhile (\<lambda>c. c \<noteq> CHR ''.'') m in
      case dropWhile (\<lambda>c. c \<noteq> CHR ''.'') m of
        [] \<Rightarrow> map_option real (py_digits False 0 ip)
      | _ # fp \<Rightarrow>
          if ip = [] \<and> fp = [] then None
          else Option.bind (if ip = [] then Some 0 else py_digits False 0 ip) (\<lambda>a.
               Option.bind (if fp = [] then Some 0 else py_digits False 0 fp) (\<lambda>b.
               Some (real a + real b / 10 ^ length (filter is_digit fp)))))"

definition exponent :: "string \<Rightarrow> int option" where
  "exponent ex =
     (case ex of
        [] \<Rightarrow> None
      | c # cs \<Rightarrow>
          if c = CHR ''-'' then map_option (\<lambda>n. - int n) (py_digits False 0 cs)
          else if c = CHR ''+'' then map_option int (py_digits False 0 cs)
          else map_option int (py_digits False 0 (c # cs)))"

definition scale10 :: "real \<Rightarrow> int \<Rightarrow> real" where
  "scale10 v k = (if 0 \<le> k then v * 10 ^ nat k else v / 10 ^ nat (- k))"

definition unsigned_decimal :: "string \<Rightarrow> real option" where
  "unsigned_decimal t =
     (let is_e = (\<lambda>c. c = CHR ''e'' \<or> c = CHR ''E'') in
      Option.bind (mantissa (takeWhile (\<lambda>c. \<not> is_e c) t)) (\<lambda>v.
        case dropWhile (\<lambda>c. \<not> is_e c) t of
          [] \<Rightarrow> Some v
        | _ # ex \<Rightarrow> map_option (scale10 v) (exponent ex)))"

definition decimal :: "string \<Rightarrow> real option" where
  "decimal s =
     (case strip s of
        [] \<Rightarrow> None
      | c # cs \<Rightarrow>
          if c = CHR ''-'' then map_option uminus (unsigned_decimal cs)
          else if c = CHR ''+'' then unsigned_decimal cs
          else unsigned_decimal (c # cs))"

text \<open>
  A decimal text that reads back as the number, where there is one. It is specified, not
  computed: no run of the program below reads a float back from a reply.
\<close>

definition real_repr :: "real \<Rightarrow> string" where
  "real_repr x = (SOME s. decimal s = Some x)"

definition atan2 :: "real \<Rightarrow> real \<Rightarrow> real" where
  "atan2 y x =
     (if 0 < x then arctan (y / x)
      else if x < 0 then (if 0 \<le> y then arctan (y / x) + pi else arctan (y / x) - pi)
      else if 0 < y then pi / 2
      else if y < 0 then - pi / 2
      else 0)"

definition exact_arith :: "real arith" where
  "exact_arith =
     \<lparr> f_of_text = decimal,
       f_repr = real_repr,
       f_pow2 = (\<lambda>x. Some (x\<^sup>2)),
       f_add = (\<lambda>a b. a + b),
       f_sub = (\<lambda>a b. a - b),
       f_div = (\<lambda>a b. if b = 0 then None else Some (a / b)),
       f_sqrt = (\<lambda>x. if x < 0 then None else Some (sqrt x)),
       f_atan2 = atan2,
       f_asin = (\<lambda>x. if - 1 \<le> x \<and> x \<le> 1 then Some (arcsin x) else None),
       f_degrees = (\<lambda>x. x * 180 / pi),
       f_earth_radius = 6371 \<rparr>"

subsection \<open>The feed, the cache and the environment\<close>

text \<open>
  A \<open>stateVector\<close> element of the feed, as the loader reads it: the result of
  \<open>findtext\<close> for each of its seven children, \<open>None\<close> when the child is missing.
\<close>

record state_vector_element =
  text_EPOCH :: "string option"
  text_X :: "string option"
  text_Y :: "string option"
  text_Z :: "string option"
  text_X_DOT :: "string option"
  text_Y_DOT :: "string option"
  text_Z_DOT :: "string option"

text \<open>
  The cache holds one hash per epoch under the key \<open>iss_data:<epoch>\<close> and the list
  \<open>iss_epochs\<close>. A hash is written with all seven fields at once; the store keeps it as
  the mapping that \<open>hset\<close> was given, and the index as the epochs that \<open>rpush\<close> was
  given.
\<close>

record 'f iss_data =
  h_epoch :: string
  h_x :: 'f
  h_y :: 'f
  h_z :: 'f
  h_x_dot :: 'f
  h_y_dot :: 'f
  h_z_dot :: 'f

record 'f redis =
  hashes :: "string \<rightharpoonup> 'f iss_data"
  iss_epochs :: "string list"

definition empty_redis :: "'f redis" where
  "empty_redis = \<lparr> hashes = Map.empty, iss_epochs = [] \<rparr>"

definition data_key :: "string \<Rightarrow> string" where
  "data_key epoch = ''iss_data:'' @ epoch"

definition hset :: "'f redis \<Rightarrow> string \<Rightarrow> 'f iss_data \<Rightarrow> 'f redis" where
  "hset st k h = st \<lparr> hashes := (hashes st)(k \<mapsto> h) \<rparr>"

definition rpush :: "'f redis \<Rightarrow> string \<Rightarrow> 'f redis" where
  "rpush st e = st \<lparr> iss_epochs := iss_epochs st @ [e] \<rparr>"

text \<open>
  The replies of the client are bytes. \<open>hgetall\<close> gives a dictionary whose keys and
  values are bytes, a float as the bytes of its \<open>repr\<close>; the dictionary of a key that
  does not exist is empty. A dictionary is the list of its items.
\<close>

definition hgetall :: "'f arith \<Rightarrow> 'f redis \<Rightarrow> string \<Rightarrow> (py_text \<times> py_text) list" where
  "hgetall ar st k =
     (case hashes st k of
        None \<Rightarrow> []
      | Some h \<Rightarrow>
          [(Bytes ''epoch'', Bytes (h_epoch h)),
           (Bytes ''x'', Bytes (f_repr ar (h_x h))),
           (Bytes ''y'', Bytes (f_repr ar (h_y h))),
           (Bytes ''z'', Bytes (f_repr ar (h_z h))),
           (Bytes ''x_dot'', Bytes (f_repr ar (h_x_dot h))),
           (Bytes ''y_dot'', Bytes (f_repr ar (h_y_dot h))),
           (Bytes ''z_dot'', Bytes (f_repr ar (h_z_dot h)))])"

text \<open>\<open>lrange("iss_epochs", 0, -1)\<close>: the whole list, each item as bytes.\<close>

definition lrange_all :: "'f redis \<Rightarrow> py_text list" where
  "lrange_all st = map Bytes (iss_epochs st)"

text \<open>\<open>d[k]\<close> on a dictionary: KeyError when no key of \<open>d\<close> equals \<open>k\<close>.\<close>

definition subscript :: "(py_text \<times> 'v) list \<Rightarrow> py_text \<Rightarrow> error + 'v" where
  "subscript d k = (case map_of d k of None \<Rightarrow> Inl KeyError | Some v \<Rightarrow> Inr v)"

text \<open>
  What one request sees of the world: the outcome of fetching the feed and parsing it
  into its \<open>stateVector\<close> elements (\<open>requests.get\<close>, \<open>ET.fromstring\<close>, \<open>findall\<close>),
  the wall clock, the reverse geocoder (an exception, no match, or an address) and the
  float arithmetic. The environment does not change during a request.
\<close>

record 'f env =
  feed :: "error + state_vector_element list"
  now :: int
  geolocator_reverse :: "'f \<Rightarrow> 'f \<Rightarrow> error + string option"
  arith :: "'f arith"

text \<open>The outcome of an operation and the cache as the operation leaves it.\<close>

type_synonym ('a, 'f) result = "(error + 'a) \<times> 'f redis"

subsection \<open>\<open>ISSTracker.read_data\<close>\<close>

text \<open>
  The arguments of one \<open>hset\<close> call, in the order Python evaluates them: the six floats
  of the mapping literal, then the call itself, whose client refuses a \<open>None\<close> epoch
  before it sends anything.
\<close>

definition hset_mapping :: "'f arith \<Rightarrow> state_vector_element \<Rightarrow> error + 'f iss_data" where
  "hset_mapping ar sv =
     and_then (py_float ar (text_X sv)) (\<lambda>x.
     and_then (py_float ar (text_Y sv)) (\<lambda>y.
     and_then (py_float ar (text_Z sv)) (\<lambda>z.
     and_then (py_float ar (text_X_DOT sv)) (\<lambda>x_dot.
     and_then (py_float ar (text_Y_DOT sv)) (\<lambda>y_dot.
     and_then (py_float ar (text_Z_DOT sv)) (\<lambda>z_dot.
     and_then (raise_if_none DataError (text_EPOCH sv)) (\<lambda>epoch.
       Inr \<lparr> h_epoch = epoch, h_x = x, h_y = y, h_z = z,
             h_x_dot = x_dot, h_y_dot = y_dot, h_z_dot = z_dot \<rparr>)))))))"

text \<open>The loop over the \<open>stateVector\<close> elements: \<open>hset\<close>, then \<open>rpush\<close>, for each.\<close>

fun store_state_vectors ::
  "'f arith \<Rightarrow> state_vector_element list \<Rightarrow> 'f redis \<Rightarrow> (unit, 'f) result" where
  "store_state_vectors ar [] st = (Inr (), st)"
| "store_state_vectors ar (sv # svs) st =
     (case hset_mapping ar sv of
        Inl e \<Rightarrow> (Inl e, st)
      | Inr h \<Rightarrow>
          store_state_vectors ar svs (rpush (hset st (data_key (h_epoch h)) h) (h_epoch h)))"

definition read_data :: "'f env \<Rightarrow> 'f redis \<Rightarrow> (unit, 'f) result" where
  "read_data ev st =
     (case feed ev of
        Inl e \<Rightarrow> (Inl e, st)
      | Inr svs \<Rightarrow> store_state_vectors (arith ev) svs st)"

subsection \<open>The tracker's queries\<close>

record 'f position =
  pos_x :: 'f
  pos_y :: 'f
  pos_z :: 'f

record 'f velocity =
  vel_x_dot :: 'f
  vel_y_dot :: 'f
  vel_z_dot :: 'f

record 'f state_vector =
  sv_epoch :: py_text
  sv_position :: "'f position"
  sv_velocity :: "'f velocity"

record 'f speed_data =
  sp_epoch :: py_text
  sp_speed :: 'f

record 'f location_data =
  loc_epoch :: py_text
  loc_latitude :: 'f
  loc_longitude :: 'f
  loc_altitude :: 'f
  loc_geoposition :: string

record 'f now_data_rec =
  now_epoch :: py_text
  now_speed :: 'f
  now_latitude :: 'f
  now_longitude :: 'f
  now_altitude :: 'f
  now_geoposition :: string

definition epochs :: "'f env \<Rightarrow> 'f redis \<Rightarrow> (py_text list, 'f) result" where
  "epochs ev st =
     (case read_data ev st of
        (Inl e, st') \<Rightarrow> (Inl e, st')
      | (Inr _, st') \<Rightarrow> (Inr (lrange_all st'), st'))"

text \<open>Python's slices \<open>xs[offset:]\<close> and \<open>xs[:limit]\<close>; a negative bound counts from the end.\<close>

definition slice_from :: "'a list \<Rightarrow> int \<Rightarrow> 'a list" where
  "slice_from xs i = (if 0 \<le> i then drop (nat i) xs else drop (nat (int (length xs) + i)) xs)"

definition slice_to :: "'a list \<Rightarrow> int \<Rightarrow> 'a list" where
  "slice_to xs i = (if 0 \<le> i then take (nat i) xs else take (nat (int (length xs) + i)) xs)"

definition epochs_limited :: "'f env \<Rightarrow> 'f redis \<Rightarrow> int \<Rightarrow> int \<Rightarrow> (py_text list, 'f) result" where
  "epochs_limited ev st limit offset =
     (case read_data ev st of
        (Inl e, st') \<Rightarrow> (Inl e, st')
      | (Inr _, st') \<Rightarrow> (Inr (slice_to (slice_from (lrange_all st') offset) limit), st'))"

text \<open>\<open>float(v)\<close> on a str or on bytes.\<close>

definition float_of :: "'f arith \<Rightarrow> py_text \<Rightarrow> error + 'f" where
  "float_of ar v =
     raise_if_none ValueError (f_of_text ar (case v of Str s \<Rightarrow> s | Bytes b \<Rightarrow> b))"

text \<open>
  The dictionary that \<open>get_state_vector_epoch\<close> returns, its subscripts of \<open>data\<close> in
  the order Python evaluates them. The keys it asks for are str.
\<close>

definition state_vector_of :: "'f arith \<Rightarrow> (py_text \<times> py_text) list \<Rightarrow> error + 'f state_vector" where
  "state_vector_of ar data =
     and_then (subscript data (Str ''epoch'')) (\<lambda>epoch.
     and_then (and_then (subscript data (Str ''x'')) (float_of ar)) (\<lambda>x.
     and_then (and_then (subscript data (Str ''y'')) (float_of ar)) (\<lambda>y.
     and_then (and_then (subscript data (Str ''z'')) (float_of ar)) (\<lambda>z.
     and_then (and_then (subscript data (Str ''x_dot'')) (float_of ar)) (\<lambda>x_dot.
     and_then (and_then (subscript data (Str ''y_dot'')) (float_of ar)) (\<lambda>y_dot.
     and_then (and_then (subscript data (Str ''z_dot'')) (float_of ar)) (\<lambda>z_dot.
       Inr \<lparr> sv_epoch = epoch,
             sv_position = \<lparr> pos_x = x, pos_y = y, pos_z = z \<rparr>,
             sv_velocity = \<lparr> vel_x_dot = x_dot, vel_y_dot = y_dot, vel_z_dot = z_dot \<rparr> \<rparr>)))))))"

definition get_state_vector_epoch ::
  "'f env \<Rightarrow> 'f redis \<Rightarrow> py_text \<Rightarrow> ('f state_vector option, 'f) result" where
  "get_state_vector_epoch ev st epoch =
     (case read_data ev st of
        (Inl e, st') \<Rightarrow> (Inl e, st')
      | (Inr _, st') \<Rightarrow>
          (let data = hgetall (arith ev) st' (data_key (format_text epoch)) in
           if data = [] then (Inr None, st')
           else
             (case state_vector_of (arith ev) data of
                Inl e \<Rightarrow> (Inl e, st')
              | Inr sv \<Rightarrow> (Inr (Some sv), st'))))"

text \<open>\<open>math.sqrt(a**2 + b**2 + c**2)\<close>, which the source writes three times.\<close>

definition norm3 :: "'f arith \<Rightarrow> 'f \<Rightarrow> 'f \<Rightarrow> 'f \<Rightarrow> error + 'f" where
  "norm3 ar a b c =
     and_then (raise_if_none OverflowError (f_pow2 ar a)) (\<lambda>a2.
     and_then (raise_if_none OverflowError (f_pow2 ar b)) (\<lambda>b2.
     and_then (raise_if_none OverflowError (f_pow2 ar c)) (\<lambda>c2.
       raise_if_none ValueError (f_sqrt ar (f_add ar (f_add ar a2 b2) c2)))))"

definition calculate_speed :: "'f arith \<Rightarrow> 'f velocity \<Rightarrow> error + 'f" where
  "calculate_speed ar v = norm3 ar (vel_x_dot v) (vel_y_dot v) (vel_z_dot v)"

definition get_speed_epoch ::
  "'f env \<Rightarrow> 'f redis \<Rightarrow> py_text \<Rightarrow> ('f speed_data option, 'f) result" where
  "get_speed_epoch ev st epoch =
     (case get_state_vector_epoch ev st epoch of
        (Inl e, st') \<Rightarrow> (Inl e, st')
      | (Inr None, st') \<Rightarrow> (Inr None, st')
      | (Inr (Some sv), st') \<Rightarrow>
          (case calculate_speed (arith ev) (sv_velocity sv) of
             Inl e \<Rightarrow> (Inl e, st')
           | Inr speed \<Rightarrow> (Inr (Some \<lparr> sp_epoch = epoch, sp_speed = speed \<rparr>), st')))"

text \<open>The conversion from Cartesian to spherical coordinates: latitude, longitude, altitude.\<close>

definition spherical :: "'f arith \<Rightarrow> 'f position \<Rightarrow> error + 'f \<times> 'f \<times> 'f" where
  "spherical ar p =
     and_then (norm3 ar (pos_x p) (pos_y p) (pos_z p)) (\<lambda>r.
       let longitude = f_degrees ar (f_atan2 ar (pos_y p) (pos_x p)) in
       and_then (raise_if_none ZeroDivisionError (f_div ar (pos_z p) r)) (\<lambda>q.
       and_then (raise_if_none ValueError (f_asin ar q)) (\<lambda>a.
         Inr (f_degrees ar a, longitude, f_sub ar r (f_earth_radius ar)))))"

text \<open>The \<open>try\<close> block around the geocoder: its exception and its empty answer each give a fixed text.\<close>

definition geoposition_of :: "error + string option \<Rightarrow> string" where
  "geoposition_of answer =
     (case answer of
        Inl e \<Rightarrow> ''Location data unavalible''
      | Inr None \<Rightarrow> ''Over water or uninhabited area''
      | Inr (Some address) \<Rightarrow> address)"

definition get_location_epoch ::
  "'f env \<Rightarrow> 'f redis \<Rightarrow> py_text \<Rightarrow> ('f location_data option, 'f) result" where
  "get_location_epoch ev st epoch =
     (case get_state_vector_epoch ev st epoch of
        (Inl e, st') \<Rightarrow> (Inl e, st')
      | (Inr None, st') \<Rightarrow> (Inr None, st')
      | (Inr (Some sv), st') \<Rightarrow>
          (case spherical (arith ev) (sv_position sv) of
             Inl e \<Rightarrow> (Inl e, st')
           | Inr (latitude, longitude, altitude) \<Rightarrow>
               (Inr (Some \<lparr> loc_epoch = epoch, loc_latitude = latitude,
                            loc_longitude = longitude, loc_altitude = altitude,
                            loc_geoposition =
                              geoposition_of (geolocator_reverse ev latitude longitude) \<rparr>), st')))"

subsection \<open>The epoch closest to now\<close>

text \<open>\<open>min(xs)\<close> raises ValueError on the empty list; \<open>xs.index(v)\<close> when \<open>v\<close> is not in it.\<close>

fun py_min :: "int list \<Rightarrow> int option" where
  "py_min [] = None"
| "py_min (x # xs) = Some (fold min xs x)"

fun py_index :: "'a list \<Rightarrow> 'a \<Rightarrow> nat option" where
  "py_index [] v = None"
| "py_index (x # xs) v = (if x = v then Some 0 else map_option Suc (py_index xs v))"

text \<open>
  \<open>datetime.strptime(epoch, format)\<close> on a value of the index: a TypeError when the value
  is not a str, a ValueError when the str is not in the format.
\<close>

definition py_strptime :: "py_text \<Rightarrow> error + int" where
  "py_strptime epoch =
     (case epoch of
        Str s \<Rightarrow> raise_if_none ValueError (strptime s)
      | Bytes b \<Rightarrow> Inl TypeError)"

text \<open>
  The list comprehension \<open>[abs(strptime(epoch) - now) for epoch in epochs]\<close>, which stops
  at the first exception.
\<close>

fun timediffdata :: "int \<Rightarrow> py_text list \<Rightarrow> error + int list" where
  "timediffdata t [] = Inr []"
| "timediffdata t (epoch # es) =
     and_then (py_strptime epoch) (\<lambda>d.
     and_then (timediffdata t es) (\<lambda>ds. Inr (\<bar>d - t\<bar> # ds)))"

definition print_closest_epoch ::
  "'f env \<Rightarrow> 'f redis \<Rightarrow> ('f state_vector option, 'f) result" where
  "print_closest_epoch ev st =
     (case epochs ev st of
        (Inl e, st') \<Rightarrow> (Inl e, st')
      | (Inr es, st') \<Rightarrow>
          if es = [] then (Inr None, st')
          else
            (case timediffdata (now ev) es of
               Inl e \<Rightarrow> (Inl e, st')
             | Inr timediffs \<Rightarrow>
                 (case py_min timediffs of
                    None \<Rightarrow> (Inl ValueError, st')
                  | Some smallest_diff \<Rightarrow>
                      (case py_index timediffs smallest_diff of
                         None \<Rightarrow> (Inl ValueError, st')
                       | Some i \<Rightarrow>
                           if i < length es then get_state_vector_epoch ev st' (es ! i)
                           else (Inl IndexError, st')))))"

text \<open>
  \<open>get_now\<close> subscripts the results of \<open>get_speed_epoch\<close> and \<open>get_location_epoch\<close>
  without a test: \<open>None\<close> there is a TypeError.
\<close>

definition get_now :: "'f env \<Rightarrow> 'f redis \<Rightarrow> ('f now_data_rec option, 'f) result" where
  "get_now ev st =
     (case print_closest_epoch ev st of
        (Inl e, st1) \<Rightarrow> (Inl e, st1)
      | (Inr None, st1) \<Rightarrow> (Inr None, st1)
      | (Inr (Some closest), st1) \<Rightarrow>
          (case get_speed_epoch ev st1 (sv_epoch closest) of
             (Inl e, st2) \<Rightarrow> (Inl e, st2)
           | (Inr None, st2) \<Rightarrow> (Inl TypeError, st2)
           | (Inr (Some speed), st2) \<Rightarrow>
               (case get_location_epoch ev st2 (sv_epoch closest) of
                  (Inl e, st3) \<Rightarrow> (Inl e, st3)
                | (Inr None, st3) \<Rightarrow> (Inl TypeError, st3)
                | (Inr (Some location), st3) \<Rightarrow>
                    (Inr (Some \<lparr> now_epoch = sv_epoch closest,
                                 now_speed = sp_speed speed,
                                 now_latitude = loc_latitude location,
                                 now_longitude = loc_longitude location,
                                 now_altitude = loc_altitude location,
                                 now_geoposition = loc_geoposition location \<rparr>), st3))))"

subsection \<open>The HTTP routes\<close>

text \<open>
  A response is a body and a status. The \<open>except Exception\<close> of every view answers 500
  with the exception's text, kept here as the exception. A list or a dictionary that a
  view returns is turned into JSON by the framework after the view has returned: bytes in
  it are not serialisable, the TypeError is raised outside the view's \<open>try\<close>, and the
  framework answers 500 with its own page.
\<close>

datatype 'f body =
    Error string
  | Exception error
  | Epochs "py_text list"
  | State_Vector "'f state_vector"
  | Speed "'f speed_data"
  | Location "'f location_data"
  | Now "'f now_data_rec"
  | Internal_Server_Error

type_synonym 'f response = "'f body \<times> nat"

fun json_serializable :: "'f body \<Rightarrow> bool" where
  "json_serializable (Epochs es) = list_all is_str es"
| "json_serializable (State_Vector sv) = is_str (sv_epoch sv)"
| "json_serializable (Speed d) = is_str (sp_epoch d)"
| "json_serializable (Location d) = is_str (loc_epoch d)"
| "json_serializable (Now d) = is_str (now_epoch d)"
| "json_serializable b = True"

definition make_response :: "'f body \<Rightarrow> 'f response" where
  "make_response b = (if json_serializable b then (b, 200) else (Internal_Server_Error, 500))"

text \<open>\<open>request.args.get(name)\<close>: the first value given for the name, if any.\<close>

definition args_get :: "(string \<times> string) list \<Rightarrow> string \<Rightarrow> string option" where
  "args_get args name = map_of args name"

definition epoch_limit_data ::
  "'f env \<Rightarrow> 'f redis \<Rightarrow> (string \<times> string) list \<Rightarrow> 'f response \<times> 'f redis" where
  "epoch_limit_data ev st args =
     (case (args_get args ''limit'', args_get args ''offset'') of
        (Some limit, Some offset) \<Rightarrow>
          (case py_int limit of
             None \<Rightarrow> ((Error ''Limit and offset must be integers'', 400), st)
           | Some l \<Rightarrow>
               (case py_int offset of
                  None \<Rightarrow> ((Error ''Limit and offset must be integers'', 400), st)
                | Some off \<Rightarrow>
                    if l < 0 \<or> off < 0
                    then ((Error ''Limit and offset must be non-negative integers'', 400), st)
                    else
                      (case epochs_limited ev st l off of
                         (Inl e, st') \<Rightarrow> ((Exception e, 500), st')
                       | (Inr es, st') \<Rightarrow> (make_response (Epochs es), st'))))
      | _ \<Rightarrow>
          (case epochs ev st of
             (Inl e, st') \<Rightarrow> ((Exception e, 500), st')
           | (Inr es, st') \<Rightarrow> (make_response (Epochs es), st')))"

definition epoch_data :: "'f env \<Rightarrow> 'f redis \<Rightarrow> string \<Rightarrow> 'f response \<times> 'f redis" where
  "epoch_data ev st epoch =
     (case get_state_vector_epoch ev st (Str epoch) of
        (Inl e, st') \<Rightarrow> ((Exception e, 500), st')
      | (Inr None, st') \<Rightarrow> ((Error (''Epoch not found: '' @ epoch), 404), st')
      | (Inr (Some data), st') \<Rightarrow> (make_response (State_Vector data), st'))"

definition epoch_speed :: "'f env \<Rightarrow> 'f redis \<Rightarrow> string \<Rightarrow> 'f response \<times> 'f redis" where
  "epoch_speed ev st epoch =
     (case get_speed_epoch ev st (Str epoch) of
        (Inl e, st') \<Rightarrow> ((Exception e, 500), st')
      | (Inr None, st') \<Rightarrow> ((Error (''Epoch not found: '' @ epoch), 404), st')
      | (Inr (Some data), st') \<Rightarrow> (make_response (Speed data), st'))"

definition epoch_location :: "'f env \<Rightarrow> 'f redis \<Rightarrow> string \<Rightarrow> 'f response \<times> 'f redis" where
  "epoch_location ev st epoch =
     (case get_location_epoch ev st (Str epoch) of
        (Inl e, st') \<Rightarrow> ((Exception e, 500), st')
      | (Inr None, st') \<Rightarrow> ((Error (''Epoch not found: '' @ epoch), 404), st')
      | (Inr (Some data), st') \<Rightarrow> (make_response (Location data), st'))"

definition now_data :: "'f env \<Rightarrow> 'f redis \<Rightarrow> 'f response \<times> 'f redis" where
  "now_data ev st =
     (case get_now ev st of
        (Inl e, st') \<Rightarrow> ((Exception e, 500), st')
      | (Inr None, st') \<Rightarrow> ((Error ''Could not determine current ISS data'', 500), st')
      | (Inr (Some data), st') \<Rightarrow> (make_response (Now data), st'))"

subsection \<open>What the loader leaves\<close>

text \<open>
  The cache after the loader has stored the mappings \<open>hs\<close>, one \<open>hset\<close> and one
  \<open>rpush\<close> each, in order.
\<close>

definition stored :: "'f redis \<Rightarrow> 'f iss_data list \<Rightarrow> 'f redis" where
  "stored st hs = fold (\<lambda>h s. rpush (hset s (data_key (h_epoch h)) h) (h_epoch h)) hs st"

text \<open>A \<open>stateVector\<close> element one of whose numeric fields has a text that is not a float.\<close>

definition malformed :: "'f arith \<Rightarrow> state_vector_element \<Rightarrow> bool" where
  "malformed ar sv =
     list_ex (\<lambda>t. case t of None \<Rightarrow> False | Some s \<Rightarrow> f_of_text ar s = None)
       [text_X sv, text_Y sv, text_Z sv, text_X_DOT sv, text_Y_DOT sv, text_Z_DOT sv]"

subsection \<open>A sample feed\<close>

text \<open>
  The feed of the test suite: two state vectors one hour apart. The clock of the sample
  environment stands at 2024-079T12:30:00, half way between them; the geocoder is the
  fake of the tests; the arithmetic is exact. \<open>sample_redis\<close> is the cache after one
  load of that feed into an empty cache.
\<close>

definition sample_feed :: "state_vector_element list" where
  "sample_feed =
     [\<lparr> text_EPOCH = Some ''2024-079T12:00:00.000Z'',
         text_X = Some ''1.0'', text_Y = Some ''2.0'', text_Z = Some ''3.0'',
         text_X_DOT = Some ''3.0'', text_Y_DOT = Some ''4.0'', text_Z_DOT = Some ''5.0'' \<rparr>,
      \<lparr> text_EPOCH = Some ''2024-079T13:00:00.000Z'',
         text_X = Some ''4.0'', text_Y = Some ''5.0'', text_Z = Some ''6.0'',
         text_X_DOT = Some ''6.0'', text_Y_DOT = Some ''8.0'', text_Z_DOT = Some ''10.0'' \<rparr>]"

definition sample_env :: "real env" where
  "sample_env =
     \<lparr> feed = Inr sample_feed,
       now = 63846448200000000,
       geolocator_reverse = (\<lambda>latitude longitude. Inr (Some ''Test Location, Earth'')),
       arith = exact_arith \<rparr>"

definition sample_first :: "real iss_data" where
  "sample_first =
     \<lparr> h_epoch = ''2024-079T12:00:00.000Z'', h_x = 1, h_y = 2, h_z = 3,
       h_x_dot = 3, h_y_dot = 4, h_z_dot = 5 \<rparr>"

definition sample_second :: "real iss_data" where
  "sample_second =
     \<lparr> h_epoch = ''2024-079T13:00:00.000Z'', h_x = 4, h_y = 5, h_z = 6,
       h_x_dot = 6, h_y_dot = 8, h_z_dot = 10 \<rparr>"

definition sample_redis :: "real redis" where
  "sample_redis =
     \<lparr> hashes = [data_key ''2024-079T12:00:00.000Z'' \<mapsto> sample_first,
                  data_key ''2024-079T13:00:00.000Z'' \<mapsto> sample_second],
       iss_epochs = [''2024-079T12:00:00.000Z'', ''2024-079T13:00:00.000Z''] \<rparr>"

text \<open>The same feed with a second entry whose \<open>X\<close> is not a number.\<close>

definition broken_feed :: "state_vector_element list" where
  "broken_feed =
     [\<lparr> text_EPOCH = Some ''2024-079T12:00:00.000Z'',
         text_X = Some ''1.0'', text_Y = Some ''2.0'', text_Z = Some ''3.0'',
         text_X_DOT = Some ''3.0'', text_Y_DOT = Some ''4.0'', text_Z_DOT = Some ''5.0'' \<rparr>,
      \<lparr> text_EPOCH = Some ''2024-079T13:00:00.000Z'',
         text_X = Some ''abc'', text_Y = Some ''5.0'', text_Z = Some ''6.0'',
         text_X_DOT = Some ''6.0'', text_Y_DOT = Some ''8.0'', text_Z_DOT = Some ''10.0'' \<rparr>]"

definition broken_env :: "real env" where
  "broken_env = sample_env \<lparr> feed := Inr broken_feed \<rparr>"

text \<open>An environment whose feed has no state vector.\<close>

definition quiet_env :: "real env" where
  "quiet_env = sample_env \<lparr> feed := Inr [] \<rparr>"

section \<open>Properties\<close>

subsection \<open>Running the model on the sample\<close>

lemmas text_defs = strip_def is_space_def is_digit_def digit_val_def
lemmas decimal_defs = decimal_def unsigned_decimal_def mantissa_def exponent_def scale10_def

lemma sample_decimals:
  "decimal ''1.0'' = Some 1" "decimal ''2.0'' = Some 2" "decimal ''3.0'' = Some 3"
  "decimal ''4.0'' = Some 4" "decimal ''5.0'' = Some 5" "decimal ''6.0'' = Some 6"
  "decimal ''8.0'' = Some 8" "decimal ''10.0'' = Some 10"
  by (simp_all add: decimal_defs text_defs)

lemma sample_mappings:
  "map (hset_mapping exact_arith) sample_feed =
     [Inr sample_first, Inr sample_second]"
  by (simp add: sample_feed_def hset_mapping_def py_float_def raise_if_none_def and_then_def
      exact_arith_def sample_decimals sample_first_def sample_second_def)

lemma read_data_sample: "read_data sample_env empty_redis = (Inr (), sample_redis)"
  using sample_mappings
  by (simp add: read_data_def sample_env_def sample_feed_def empty_redis_def sample_redis_def
      hset_def rpush_def sample_first_def sample_second_def)

lemma read_data_quiet: "read_data quiet_env empty_redis = (Inr (), empty_redis)"
  by (simp add: read_data_def quiet_env_def)

lemma sample_int: "py_int ''-1'' = Some (- 1)" "py_int ''abc'' = None" "py_int ''1'' = Some 1"
  by (simp_all add: py_int_def text_defs Let_def)

subsection \<open>The loader\<close>

lemma stored_simps:
  "stored st [] = st"
  "stored st (h # hs) = stored (rpush (hset st (data_key (h_epoch h)) h) (h_epoch h)) hs"
  by (simp_all add: stored_def)

lemma iss_epochs_stored: "iss_epochs (stored st hs) = iss_epochs st @ map h_epoch hs"
  by (induction hs arbitrary: st) (simp_all add: stored_simps rpush_def hset_def)

lemma store_state_vectors_all:
  "map (hset_mapping ar) svs = map Inr hs \<Longrightarrow> store_state_vectors ar svs st = (Inr (), stored st hs)"
proof (induction svs arbitrary: hs st)
  case Nil
  then show ?case by (simp add: stored_simps)
next
  case (Cons sv svs)
  then obtain h hs' where "hs = h # hs'" "hset_mapping ar sv = Inr h"
    "map (hset_mapping ar) svs = map Inr hs'"
    by (cases hs) auto
  with Cons.IH show ?case by (simp add: stored_simps)
qed

lemma store_state_vectors_append:
  "store_state_vectors ar (pre @ post) st =
     (case store_state_vectors ar pre st of
        (Inl e, st') \<Rightarrow> (Inl e, st')
      | (Inr _, st') \<Rightarrow> store_state_vectors ar post st')"
  by (induction pre arbitrary: st) (simp_all split: sum.splits)

lemma store_state_vectors_stops:
  assumes "map (hset_mapping ar) pre = map Inr hs" and "hset_mapping ar bad = Inl e"
  shows "store_state_vectors ar (pre @ bad # post) st = (Inl e, stored st hs)"
  using assms by (simp add: store_state_vectors_append store_state_vectors_all)

lemma malformed_raises: "malformed ar sv \<Longrightarrow> \<exists>e. hset_mapping ar sv = Inl e"
  by (auto simp: malformed_def hset_mapping_def py_float_def and_then_def raise_if_none_def
      split: option.splits sum.splits)

lemma first_failure:
  assumes "sv \<in> set svs" and "hset_mapping ar sv = Inl e"
  shows "\<exists>pre bad post hs e'. svs = pre @ bad # post \<and> map (hset_mapping ar) pre = map Inr hs
           \<and> hset_mapping ar bad = Inl e'"
proof -
  from assms have "\<exists>x\<in>set svs. isl (hset_mapping ar x)"
    by (auto intro: bexI [of _ sv])
  then obtain pre bad post where split: "svs = pre @ bad # post"
    and bad: "isl (hset_mapping ar bad)" and pre: "\<forall>x\<in>set pre. \<not> isl (hset_mapping ar x)"
    using split_list_first_prop [of svs "\<lambda>x. isl (hset_mapping ar x)"] by blast
  from pre have "map (hset_mapping ar) pre = map Inr (map (\<lambda>x. projr (hset_mapping ar x)) pre)"
    by (induction pre) (auto simp: sum.collapse)
  moreover from bad obtain e' where "hset_mapping ar bad = Inl e'"
    by (cases "hset_mapping ar bad") auto
  ultimately show ?thesis
    using split by blast
qed

text \<open>
  Claim C2, as amended. When an entry of the feed has a numeric field that is not a
  number, \<open>read_data\<close> raises: no entry is skipped. It raises at the first entry that
  cannot be stored; the entries before it have been written to the cache, hash and index,
  and nothing of the failing entry or of those after it is written. The loader has no
  transaction: each \<open>hset\<close> and \<open>rpush\<close> takes effect as it is made.
\<close>

theorem read_data_stops_at_first_failure:
  assumes "feed ev = Inr svs" and "sv \<in> set svs" and "malformed (arith ev) sv"
  shows "\<exists>pre bad post hs e.
           svs = pre @ bad # post
           \<and> map (hset_mapping (arith ev)) pre = map Inr hs
           \<and> hset_mapping (arith ev) bad = Inl e
           \<and> read_data ev st = (Inl e, stored st hs)
           \<and> iss_epochs (stored st hs) = iss_epochs st @ map h_epoch hs"
proof -
  from assms(3) obtain e0 where "hset_mapping (arith ev) sv = Inl e0"
    using malformed_raises by blast
  with assms(2) obtain pre bad post hs e where parts: "svs = pre @ bad # post"
    "map (hset_mapping (arith ev)) pre = map Inr hs" "hset_mapping (arith ev) bad = Inl e"
    using first_failure by blast
  then have "read_data ev st = (Inl e, stored st hs)"
    using assms(1) by (simp add: read_data_def store_state_vectors_stops)
  with parts show ?thesis
    using iss_epochs_stored by blast
qed

lemma broken_mappings:
  "map (hset_mapping exact_arith) broken_feed =
     [Inr sample_first, Inl ValueError]"
proof -
  have "decimal ''abc'' = None"
    by (simp add: decimal_defs text_defs)
  then show ?thesis
    by (simp add: broken_feed_def hset_mapping_def py_float_def raise_if_none_def and_then_def
        exact_arith_def sample_decimals sample_first_def)
qed

lemma read_data_broken:
  "read_data broken_env empty_redis =
     (Inl ValueError,
      \<lparr> hashes = [data_key ''2024-079T12:00:00.000Z'' \<mapsto> sample_first],
        iss_epochs = [''2024-079T12:00:00.000Z''] \<rparr>)"
  using broken_mappings
  by (simp add: read_data_def broken_env_def sample_env_def broken_feed_def empty_redis_def
      hset_def rpush_def sample_first_def)

lemma broken_second_malformed: "malformed (arith broken_env) (broken_feed ! 1)"
proof -
  have "decimal ''abc'' = None"
    by (simp add: decimal_defs text_defs)
  then show ?thesis
    by (simp add: malformed_def broken_env_def sample_env_def broken_feed_def exact_arith_def)
qed

theorem read_data_stops_at_first_failure_witness:
  "\<exists>pre bad post hs e.
     broken_feed = pre @ bad # post
     \<and> map (hset_mapping (arith broken_env)) pre = map Inr hs
     \<and> hset_mapping (arith broken_env) bad = Inl e
     \<and> read_data broken_env empty_redis = (Inl e, stored empty_redis hs)
     \<and> iss_epochs (stored empty_redis hs) = iss_epochs (empty_redis :: real redis) @ map h_epoch hs"
proof -
  have fetched: "feed broken_env = Inr broken_feed"
    by (simp add: broken_env_def)
  have member: "broken_feed ! 1 \<in> set broken_feed"
    by (simp add: broken_feed_def)
  show ?thesis
    by (rule read_data_stops_at_first_failure [OF fetched member broken_second_malformed])
qed

text \<open>
  Claim C2 as stated fails: the load of a feed whose second entry is malformed raises, and
  the first entry stays in the cache, hash and index.
\<close>

theorem read_data_not_all_or_nothing:
  "feed broken_env = Inr broken_feed
   \<and> malformed (arith broken_env) (broken_feed ! 1)
   \<and> fst (read_data broken_env empty_redis) = Inl ValueError
   \<and> iss_epochs (snd (read_data broken_env empty_redis)) = [''2024-079T12:00:00.000Z'']
   \<and> hashes (snd (read_data broken_env empty_redis)) (data_key ''2024-079T12:00:00.000Z'') \<noteq> None
   \<and> snd (read_data broken_env empty_redis) \<noteq> empty_redis"
proof -
  have fetched: "feed broken_env = Inr broken_feed"
    by (simp add: broken_env_def)
  have "iss_epochs (snd (read_data broken_env empty_redis)) = [''2024-079T12:00:00.000Z'']"
    by (simp add: read_data_broken)
  moreover have "iss_epochs (empty_redis :: real redis) = []"
    by (simp add: empty_redis_def)
  ultimately have "snd (read_data broken_env empty_redis) \<noteq> empty_redis"
    by auto
  with fetched broken_second_malformed show ?thesis
    by (simp add: read_data_broken)
qed

subsection \<open>Pagination parameters of \<open>GET /epochs\<close>\<close>

lemma message_integers: "sublist ''integers'' ''Limit and offset must be integers''"
proof -
  have "''Limit and offset must be integers'' = ''Limit and offset must be '' @ ''integers''"
    by simp
  then show ?thesis
    by (metis sublist_append_leftI)
qed

lemma message_non_negative:
  "sublist ''non-negative'' ''Limit and offset must be non-negative integers''"
  "sublist ''integers'' ''Limit and offset must be non-negative integers''"
proof -
  have "''Limit and offset must be non-negative integers''
          = ''Limit and offset must be '' @ ''non-negative'' @ '' integers''"
    by simp
  then show "sublist ''non-negative'' ''Limit and offset must be non-negative integers''"
    by (metis sublist_appendI)
  have "''Limit and offset must be non-negative integers''
          = ''Limit and offset must be non-negative '' @ ''integers''"
    by simp
  then show "sublist ''integers'' ''Limit and offset must be non-negative integers''"
    by (metis sublist_append_leftI)
qed

text \<open>The message for a value that is not an integer does not speak of signs.\<close>

lemma message_integers_only: "\<not> sublist ''non-negative'' ''Limit and offset must be integers''"
  by (simp add: sublist_code)

text \<open>
  Claim C1, as amended. When both \<open>limit\<close> and \<open>offset\<close> are present and one of them
  is not an integer or is negative, \<open>GET /epochs\<close> answers 400 and leaves the cache
  alone. The message contains "integers"; it contains "non-negative" when both values are
  integers, so that the rejection is for a negative one. The view validates only under
  \<open>limit is not None and offset is not None\<close>: a parameter that comes alone is not
  looked at.
\<close>

theorem epoch_limit_data_bad_request:
  assumes "args_get args ''limit'' = Some limit"
    and "args_get args ''offset'' = Some offset"
    and "py_int limit = None \<or> py_int offset = None
           \<or> (\<exists>n. py_int limit = Some n \<and> n < 0) \<or> (\<exists>n. py_int offset = Some n \<and> n < 0)"
  shows "\<exists>msg. epoch_limit_data ev st args = ((Error msg, 400), st)
           \<and> sublist ''integers'' msg
           \<and> (py_int limit \<noteq> None \<and> py_int offset \<noteq> None \<longrightarrow> sublist ''non-negative'' msg)"
proof (cases "py_int limit = None \<or> py_int offset = None")
  case True
  then have "epoch_limit_data ev st args = ((Error ''Limit and offset must be integers'', 400), st)"
    using assms(1,2) by (auto simp: epoch_limit_data_def split: option.splits)
  with True show ?thesis
    using message_integers by blast
next
  case False
  then obtain l off where lo: "py_int limit = Some l" "py_int offset = Some off"
    by auto
  with assms(3) have "l < 0 \<or> off < 0"
    by auto
  with lo have "epoch_limit_data ev st args
                  = ((Error ''Limit and offset must be non-negative integers'', 400), st)"
    using assms(1,2) by (simp add: epoch_limit_data_def)
  then show ?thesis
    using message_non_negative by blast
qed

theorem epoch_limit_data_bad_request_witness:
  "(\<exists>msg. epoch_limit_data sample_env empty_redis [(''limit'', ''-1''), (''offset'', ''1'')]
             = ((Error msg, 400), empty_redis)
          \<and> sublist ''integers'' msg \<and> sublist ''non-negative'' msg)
   \<and> (\<exists>msg. epoch_limit_data sample_env empty_redis [(''limit'', ''abc''), (''offset'', ''1'')]
             = ((Error msg, 400), empty_redis)
          \<and> sublist ''integers'' msg)"
proof -
  have "\<exists>msg. epoch_limit_data sample_env empty_redis [(''limit'', ''-1''), (''offset'', ''1'')]
             = ((Error msg, 400), empty_redis)
          \<and> sublist ''integers'' msg \<and> sublist ''non-negative'' msg"
    using epoch_limit_data_bad_request
      [of "[(''limit'', ''-1''), (''offset'', ''1'')]" "''-1''" "''1''" sample_env empty_redis]
    by (simp add: args_get_def sample_int)
  moreover
  have "\<exists>msg. epoch_limit_data sample_env empty_redis [(''limit'', ''abc''), (''offset'', ''1'')]
             = ((Error msg, 400), empty_redis)
          \<and> sublist ''integers'' msg"
    using epoch_limit_data_bad_request
      [of "[(''limit'', ''abc''), (''offset'', ''1'')]" "''abc''" "''1''" sample_env empty_redis]
    by (simp add: args_get_def sample_int)
  ultimately show ?thesis
    by blast
qed

text \<open>
  Claim C1 as stated fails: a request that carries \<open>limit=-1\<close> and no \<open>offset\<close> has a
  parameter that is present and negative, and it is not answered 400. Over a feed without
  state vectors it is answered 200 with the empty index; over the sample feed the answer
  is the one of the request without parameters, which is not 400 either.
\<close>

theorem epoch_limit_data_lone_limit_accepted:
  "args_get [(''limit'', ''-1'')] ''limit'' = Some ''-1''
   \<and> py_int ''-1'' = Some (- 1)
   \<and> epoch_limit_data quiet_env empty_redis [(''limit'', ''-1'')]
       = ((Epochs [], 200), empty_redis)
   \<and> epoch_limit_data sample_env empty_redis [(''limit'', ''-1'')]
       = epoch_limit_data sample_env empty_redis []
   \<and> snd (fst (epoch_limit_data sample_env empty_redis [(''limit'', ''-1'')])) \<noteq> 400"
proof -
  have quiet: "epoch_limit_data quiet_env empty_redis [(''limit'', ''-1'')]
                 = ((Epochs [], 200), empty_redis)"
    by (simp add: epoch_limit_data_def args_get_def epochs_def read_data_quiet lrange_all_def
        make_response_def) (simp add: empty_redis_def)
  have same: "epoch_limit_data sample_env empty_redis [(''limit'', ''-1'')]
                = epoch_limit_data sample_env empty_redis []"
    by (simp add: epoch_limit_data_def args_get_def)
  have "snd (fst (epoch_limit_data sample_env empty_redis [])) \<noteq> 400"
    by (simp add: epoch_limit_data_def args_get_def epochs_def read_data_sample
        make_response_def)
  with quiet same show ?thesis
    by (simp add: args_get_def sample_int)
qed

subsection \<open>The replies of the cache\<close>

text \<open>
  The dictionary of a key that exists is not empty and all its keys are bytes: no str is
  a key of it, and the first subscript of \<open>get_state_vector_epoch\<close>, \<open>data['epoch']\<close>,
  raises KeyError.
\<close>

lemma hgetall_empty: "hgetall ar st k = [] \<longleftrightarrow> hashes st k = None"
  by (simp add: hgetall_def split: option.splits)

lemma hgetall_no_str_key: "map_of (hgetall ar st k) (Str s) = None"
  by (simp add: hgetall_def split: option.splits)

lemma state_vector_of_reply: "state_vector_of ar' (hgetall ar st k) = Inl KeyError"
  by (simp add: state_vector_of_def subscript_def hgetall_no_str_key and_then_def)

lemma get_state_vector_epoch_unknown:
  assumes "read_data ev st = (Inr (), st')" and "hashes st' (data_key epoch) = None"
  shows "get_state_vector_epoch ev st (Str epoch) = (Inr None, st')"
  using assms by (simp add: get_state_vector_epoch_def format_text_def hgetall_empty)

lemma get_state_vector_epoch_stored:
  assumes "read_data ev st = (Inr (), st')" and "hashes st' (data_key epoch) = Some h"
  shows "get_state_vector_epoch ev st (Str epoch) = (Inl KeyError, st')"
  using assms
  by (simp add: get_state_vector_epoch_def format_text_def hgetall_empty state_vector_of_reply)

text \<open>The index comes back as bytes, on which \<open>strptime\<close> raises TypeError.\<close>

lemma timediffdata_bytes: "es \<noteq> [] \<Longrightarrow> timediffdata t (map Bytes es) = Inl TypeError"
  by (cases es) (simp_all add: py_strptime_def and_then_def)

lemma print_closest_epoch_nonempty:
  assumes "read_data ev st = (Inr (), st')" and "iss_epochs st' \<noteq> []"
  shows "print_closest_epoch ev st = (Inl TypeError, st')"
  using assms
  by (simp add: print_closest_epoch_def epochs_def lrange_all_def timediffdata_bytes)

lemma print_closest_epoch_empty:
  assumes "read_data ev st = (Inr (), st')" and "iss_epochs st' = []"
  shows "print_closest_epoch ev st = (Inr None, st')"
  using assms by (simp add: print_closest_epoch_def epochs_def lrange_all_def)

text \<open>A list of bytes is not serialisable, whatever it holds; the empty list is.\<close>

lemma make_response_bytes:
  "make_response (Epochs (map Bytes es)) =
     (if es = [] then (Epochs [], 200) else (Internal_Server_Error, 500))"
  by (cases es) (simp_all add: make_response_def is_str_def)

subsection \<open>Facts about the sample cache\<close>

lemma sample_redis_epochs:
  "iss_epochs sample_redis = [''2024-079T12:00:00.000Z'', ''2024-079T13:00:00.000Z'']"
  by (simp add: sample_redis_def)

lemma sample_redis_absent: "hashes sample_redis (data_key ''2024-079T14:00:00.000Z'') = None"
  by (simp add: sample_redis_def data_key_def)

lemma sample_redis_first:
  "hashes sample_redis (data_key ''2024-079T12:00:00.000Z'') = Some sample_first"
  by (simp add: sample_redis_def data_key_def)

subsection \<open>One parameter of \<open>GET /epochs\<close> alone\<close>

lemma epoch_limit_data_one_parameter_ignored:
  assumes "(args_get args ''limit'' = None) \<noteq> (args_get args ''offset'' = None)"
  shows "epoch_limit_data ev st args = epoch_limit_data ev st []"
  using assms
  by (auto simp: epoch_limit_data_def args_get_def split: option.splits)

text \<open>
  Claim C10. A request that supplies exactly one of \<open>limit\<close> and \<open>offset\<close> is answered
  as the request without parameters is: the parameter is ignored, whatever its value.
  The answer is not the epoch list with status 200, though: the index that the cache
  hands back is a list of bytes, which the framework cannot turn into JSON, and over the
  sample feed \<open>GET /epochs?offset=abc\<close> is answered 500.
\<close>

theorem epoch_limit_data_one_parameter_not_served:
  "epoch_limit_data sample_env empty_redis [(''offset'', ''abc'')]
     = epoch_limit_data sample_env empty_redis []
   \<and> epoch_limit_data sample_env empty_redis [(''offset'', ''abc'')]
     = ((Internal_Server_Error, 500), sample_redis)"
proof -
  have one: "(args_get [(''offset'', ''abc'')] ''limit'' = None)
               \<noteq> (args_get [(''offset'', ''abc'')] ''offset'' = None)"
    by (simp add: args_get_def)
  have "epoch_limit_data sample_env empty_redis []
          = (make_response (Epochs (map Bytes (iss_epochs sample_redis))), sample_redis)"
    by (simp add: epoch_limit_data_def args_get_def epochs_def read_data_sample lrange_all_def)
  moreover have "iss_epochs sample_redis \<noteq> []"
    by (simp add: sample_redis_epochs)
  ultimately have "epoch_limit_data sample_env empty_redis []
                     = ((Internal_Server_Error, 500), sample_redis)"
    by (simp only: make_response_bytes if_False)
  with epoch_limit_data_one_parameter_ignored [OF one, of sample_env empty_redis]
  show ?thesis
    by simp
qed

subsection \<open>Paging through the index\<close>

text \<open>
  Claim C6. For non-negative \<open>limit\<close> and \<open>offset\<close>, \<open>epochs_limited\<close> returns the
  slice of the index that starts at position \<open>offset\<close> and has at most \<open>limit\<close> items,
  in index order: item \<open>i\<close> of the page is item \<open>offset + i\<close> of the index. An offset
  at or beyond the length of the index gives the empty list. The index is the one the
  operation reads, after the load it starts with.
\<close>

theorem epochs_limited_slice:
  assumes "read_data ev st = (Inr (), st')" and "0 \<le> limit" and "0 \<le> offset"
  shows "epochs_limited ev st limit offset
           = (Inr (map Bytes (take (nat limit) (drop (nat offset) (iss_epochs st')))), st')
         \<and> length (take (nat limit) (drop (nat offset) (iss_epochs st')))
             = min (nat limit) (length (iss_epochs st') - nat offset)
         \<and> (\<forall>i < length (take (nat limit) (drop (nat offset) (iss_epochs st'))).
               take (nat limit) (drop (nat offset) (iss_epochs st')) ! i
                 = iss_epochs st' ! (nat offset + i))
         \<and> (int (length (iss_epochs st')) \<le> offset \<longrightarrow>
               epochs_limited ev st limit offset = (Inr [], st'))"
proof -
  have page: "epochs_limited ev st limit offset
                = (Inr (map Bytes (take (nat limit) (drop (nat offset) (iss_epochs st')))), st')"
    using assms
    by (simp add: epochs_limited_def slice_to_def slice_from_def lrange_all_def take_map drop_map)
  moreover have "int (length (iss_epochs st')) \<le> offset \<longrightarrow>
                   drop (nat offset) (iss_epochs st') = []"
    by auto
  ultimately show ?thesis
    by (auto simp: min_def)
qed

theorem epochs_limited_slice_witness:
  "epochs_limited sample_env empty_redis 1 1
     = (Inr [Bytes ''2024-079T13:00:00.000Z''], sample_redis)
   \<and> epochs_limited sample_env empty_redis 1 2 = (Inr [], sample_redis)"
proof -
  have "epochs_limited sample_env empty_redis 1 1
          = (Inr (map Bytes (take (nat 1) (drop (nat 1) (iss_epochs sample_redis)))), sample_redis)"
    using epochs_limited_slice [OF read_data_sample, of 1 1] by simp
  moreover have "epochs_limited sample_env empty_redis 1 2 = (Inr [], sample_redis)"
    using epochs_limited_slice [OF read_data_sample, of 1 2] by (simp add: sample_redis_epochs)
  ultimately show ?thesis
    by (simp add: sample_redis_epochs)
qed

subsection \<open>Lookups by epoch\<close>

text \<open>
  Claim C4. For an epoch that has no hash in the cache that the lookup reads (the cache
  after the load the lookup starts with), \<open>get_state_vector_epoch\<close>,
  \<open>get_speed_epoch\<close> and \<open>get_location_epoch\<close> each return \<open>None\<close>; none of them
  raises, and each of the three routes answers 404.
\<close>

theorem unknown_epoch_not_found:
  assumes "read_data ev st = (Inr (), st')" and "hashes st' (data_key epoch) = None"
  shows "get_state_vector_epoch ev st (Str epoch) = (Inr None, st')
         \<and> get_speed_epoch ev st (Str epoch) = (Inr None, st')
         \<and> get_location_epoch ev st (Str epoch) = (Inr None, st')
         \<and> epoch_data ev st epoch = ((Error (''Epoch not found: '' @ epoch), 404), st')
         \<and> epoch_speed ev st epoch = ((Error (''Epoch not found: '' @ epoch), 404), st')
         \<and> epoch_location ev st epoch = ((Error (''Epoch not found: '' @ epoch), 404), st')"
proof -
  have "get_state_vector_epoch ev st (Str epoch) = (Inr None, st')"
    using assms by (rule get_state_vector_epoch_unknown)
  then show ?thesis
    by (simp add: get_speed_epoch_def get_location_epoch_def epoch_data_def epoch_speed_def
        epoch_location_def)
qed

theorem unknown_epoch_not_found_witness:
  "get_state_vector_epoch sample_env empty_redis (Str ''2024-079T14:00:00.000Z'')
     = (Inr None, sample_redis)
   \<and> get_speed_epoch sample_env empty_redis (Str ''2024-079T14:00:00.000Z'')
     = (Inr None, sample_redis)
   \<and> get_location_epoch sample_env empty_redis (Str ''2024-079T14:00:00.000Z'')
     = (Inr None, sample_redis)
   \<and> epoch_data sample_env empty_redis ''2024-079T14:00:00.000Z''
       = ((Error ''Epoch not found: 2024-079T14:00:00.000Z'', 404), sample_redis)
   \<and> epoch_speed sample_env empty_redis ''2024-079T14:00:00.000Z''
       = ((Error ''Epoch not found: 2024-079T14:00:00.000Z'', 404), sample_redis)
   \<and> epoch_location sample_env empty_redis ''2024-079T14:00:00.000Z''
       = ((Error ''Epoch not found: 2024-079T14:00:00.000Z'', 404), sample_redis)"
  using unknown_epoch_not_found [OF read_data_sample sample_redis_absent] by simp

subsection \<open>Lookups of a stored epoch\<close>

lemma read_data_geocoder: "read_data (ev \<lparr> geolocator_reverse := g \<rparr>) st = read_data ev st"
  by (simp add: read_data_def split: sum.splits)

text \<open>
  Claim C9. The claim asks that \<open>get_speed_epoch\<close> return the epoch and the norm of the
  stored velocity for every epoch in the cache. The code does not get that far: for the
  first epoch of the sample feed, which is in the cache when it is looked up,
  \<open>get_state_vector_epoch\<close> raises KeyError on \<open>data['epoch']\<close>, no speed is computed,
  and the route answers 500.
\<close>

theorem get_speed_epoch_stored_epoch:
  "hashes sample_redis (data_key ''2024-079T12:00:00.000Z'') = Some sample_first
   \<and> get_state_vector_epoch sample_env empty_redis (Str ''2024-079T12:00:00.000Z'')
       = (Inl KeyError, sample_redis)
   \<and> get_speed_epoch sample_env empty_redis (Str ''2024-079T12:00:00.000Z'')
       = (Inl KeyError, sample_redis)
   \<and> epoch_speed sample_env empty_redis ''2024-079T12:00:00.000Z''
       = ((Exception KeyError, 500), sample_redis)"
proof -
  have "get_state_vector_epoch sample_env empty_redis (Str ''2024-079T12:00:00.000Z'')
          = (Inl KeyError, sample_redis)"
    using read_data_sample sample_redis_first by (rule get_state_vector_epoch_stored)
  then show ?thesis
    by (simp add: sample_redis_first get_speed_epoch_def epoch_speed_def)
qed

text \<open>
  Claim C7. The claim asks that \<open>get_location_epoch\<close> succeed for every epoch in the
  cache when the geocoder fails or finds nothing. The code does not reach the geocoder:
  for the first epoch of the sample feed \<open>get_state_vector_epoch\<close> raises KeyError on
  \<open>data['epoch']\<close>, whether the geocoder raises or has no match, and the route answers
  500.
\<close>

theorem get_location_epoch_stored_epoch:
  "hashes sample_redis (data_key ''2024-079T12:00:00.000Z'') = Some sample_first
   \<and> get_location_epoch
         (sample_env \<lparr> geolocator_reverse := (\<lambda>latitude longitude. Inl GeocoderError) \<rparr>)
         empty_redis (Str ''2024-079T12:00:00.000Z'')
       = (Inl KeyError, sample_redis)
   \<and> get_location_epoch
         (sample_env \<lparr> geolocator_reverse := (\<lambda>latitude longitude. Inr None) \<rparr>)
         empty_redis (Str ''2024-079T12:00:00.000Z'')
       = (Inl KeyError, sample_redis)
   \<and> epoch_location
         (sample_env \<lparr> geolocator_reverse := (\<lambda>latitude longitude. Inl GeocoderError) \<rparr>)
         empty_redis ''2024-079T12:00:00.000Z''
       = ((Exception KeyError, 500), sample_redis)"
proof -
  have "get_state_vector_epoch (sample_env \<lparr> geolocator_reverse := g \<rparr>) empty_redis
          (Str ''2024-079T12:00:00.000Z'') = (Inl KeyError, sample_redis)" for g
  proof -
    have "read_data (sample_env \<lparr> geolocator_reverse := g \<rparr>) empty_redis = (Inr (), sample_redis)"
      by (simp only: read_data_geocoder read_data_sample)
    then show ?thesis
      using sample_redis_first by (rule get_state_vector_epoch_stored)
  qed
  then show ?thesis
    by (simp add: sample_redis_first get_location_epoch_def epoch_location_def)
qed

subsection \<open>The epoch closest to now\<close>

text \<open>
  Claim C3. On an empty index \<open>print_closest_epoch\<close> returns \<open>None\<close>, as claimed. On a
  non-empty index the claim asks for the state vector of the closest epoch; the code
  raises instead. On the index that one load of the sample feed leaves, two epochs, the
  first \<open>strptime\<close> of the list comprehension is given bytes and raises TypeError.
\<close>

theorem print_closest_epoch_on_bytes:
  "iss_epochs sample_redis = [''2024-079T12:00:00.000Z'', ''2024-079T13:00:00.000Z'']
   \<and> epochs sample_env empty_redis
       = (Inr [Bytes ''2024-079T12:00:00.000Z'', Bytes ''2024-079T13:00:00.000Z''], sample_redis)
   \<and> print_closest_epoch sample_env empty_redis = (Inl TypeError, sample_redis)
   \<and> print_closest_epoch quiet_env empty_redis = (Inr None, empty_redis)"
proof -
  have nonempty: "iss_epochs sample_redis \<noteq> []"
    by (simp add: sample_redis_epochs)
  have none: "iss_epochs (empty_redis :: real redis) = []"
    by (simp add: empty_redis_def)
  have "epochs sample_env empty_redis
       = (Inr [Bytes ''2024-079T12:00:00.000Z'', Bytes ''2024-079T13:00:00.000Z''], sample_redis)"
    by (simp add: epochs_def read_data_sample lrange_all_def sample_redis_epochs)
  with print_closest_epoch_nonempty [OF read_data_sample nonempty]
    print_closest_epoch_empty [OF read_data_quiet none]
  show ?thesis
    by (simp add: sample_redis_epochs)
qed

subsection \<open>The composite answer for now\<close>

text \<open>
  Claim C5. Over a feed without state vectors \<open>get_now\<close> returns \<open>None\<close> and
  \<open>GET /now\<close> answers 500, as claimed, and no exception leaves the view. When the index
  is not empty the claim asks for the record composed of the closest epoch, its speed and
  its location; the code raises instead: over the sample feed \<open>print_closest_epoch\<close>
  raises TypeError and \<open>GET /now\<close> answers 500.
\<close>

theorem get_now_on_bytes:
  "get_now quiet_env empty_redis = (Inr None, empty_redis)
   \<and> now_data quiet_env empty_redis
       = ((Error ''Could not determine current ISS data'', 500), empty_redis)
   \<and> iss_epochs sample_redis \<noteq> []
   \<and> get_now sample_env empty_redis = (Inl TypeError, sample_redis)
   \<and> now_data sample_env empty_redis = ((Exception TypeError, 500), sample_redis)"
proof -
  have nonempty: "iss_epochs sample_redis \<noteq> []"
    by (simp add: sample_redis_epochs)
  have none: "iss_epochs (empty_redis :: real redis) = []"
    by (simp add: empty_redis_def)
  from print_closest_epoch_nonempty [OF read_data_sample nonempty]
    print_closest_epoch_empty [OF read_data_quiet none] nonempty
  show ?thesis
    by (simp add: get_now_def now_data_def)
qed

subsection \<open>Exact arithmetic\<close>

lemma norm3_exact: "norm3 exact_arith a b c = Inr (sqrt (a\<^sup>2 + b\<^sup>2 + c\<^sup>2))"
proof -
  have "\<not> a\<^sup>2 + b\<^sup>2 + c\<^sup>2 < 0"
    by (simp add: not_less add_nonneg_nonneg)
  then show ?thesis
    by (simp add: norm3_def exact_arith_def and_then_def raise_if_none_def)
qed

lemma quotient_in_asin_domain:
  fixes x y z :: real
  assumes "sqrt (x\<^sup>2 + y\<^sup>2 + z\<^sup>2) \<noteq> 0"
  shows "- 1 \<le> z / sqrt (x\<^sup>2 + y\<^sup>2 + z\<^sup>2) \<and> z / sqrt (x\<^sup>2 + y\<^sup>2 + z\<^sup>2) \<le> 1"
proof -
  let ?r = "sqrt (x\<^sup>2 + y\<^sup>2 + z\<^sup>2)"
  have "z\<^sup>2 \<le> x\<^sup>2 + y\<^sup>2 + z\<^sup>2"
    by simp
  then have "sqrt (z\<^sup>2) \<le> ?r"
    by (rule real_sqrt_le_mono)
  then have "\<bar>z\<bar> \<le> ?r"
    by simp
  moreover have "0 < ?r"
    using assms by (metis less_eq_real_def real_sqrt_ge_zero sum_power2_ge_zero add_nonneg_nonneg zero_le_power2)
  ultimately have "\<bar>z / ?r\<bar> \<le> 1"
    by simp
  then have "z / ?r \<le> 1 \<and> - (z / ?r) \<le> 1"
    by (simp only: abs_le_iff)
  then show ?thesis
    by linarith
qed

lemma spherical_exact:
  "spherical exact_arith \<lparr> pos_x = x, pos_y = y, pos_z = z \<rparr> =
     (if sqrt (x\<^sup>2 + y\<^sup>2 + z\<^sup>2) = 0 then Inl ZeroDivisionError
      else Inr (arcsin (z / sqrt (x\<^sup>2 + y\<^sup>2 + z\<^sup>2)) * 180 / pi,
                atan2 y x * 180 / pi,
                sqrt (x\<^sup>2 + y\<^sup>2 + z\<^sup>2) - 6371))"
proof (cases "sqrt (x\<^sup>2 + y\<^sup>2 + z\<^sup>2) = 0")
  case True
  then show ?thesis
    by (simp add: spherical_def norm3_exact and_then_def raise_if_none_def)
       (simp add: exact_arith_def)
next
  case False
  from quotient_in_asin_domain [OF False] False show ?thesis
    by (simp add: spherical_def norm3_exact and_then_def raise_if_none_def)
       (simp add: exact_arith_def)
qed

end
